theory Spec2Isabelle
  imports Complex_Main "HOL-Library.Word" "HOL-Library.Multiset"
begin

section \<open>The obstacles-depth vision service\<close>

text \<open>
  A shallow embedding of package \<open>obstaclesdepth\<close>: the service object \<open>obsDepth\<close>, its
  constructor \<open>registerObstaclesDepth\<close>, the per-frame pipeline (\<open>buildObsDepth\<close>,
  \<open>obsDepthNoIntrinsics\<close>, \<open>obsDepthWithIntrinsics\<close>) and the methods of the vision
  interface.

  Conventions.
  \<^item> A Go result \<open>(v, err)\<close> is a sum \<open>error + 'a\<close>: \<open>Inl e\<close> when \<open>err\<close> is not nil.
  \<^item> The receiver \<open>*obsDepth\<close>, the backing arrays of depth maps and the logger are
    mutable, so every method takes a \<open>world\<close> and returns the new one.
  \<^item> \<open>float64\<close> values are HOL reals. The only arithmetic the package does on them is
    \<open>0.5 * float64(len)\<close> and \<open>float64(d)\<close> for a 16-bit depth \<open>d\<close>; both are exact
    in \<open>float64\<close> (for every length below \<open>2^53\<close>).
  \<^item> The \<open>context.Context\<close> arguments and the tracing span carry no data of the
    computation and are left out.
\<close>

subsection \<open>Errors\<close>

datatype error =
    ErrNilConfig                   \<comment> \<open>"config for obstacles_depth cannot be nil"\<close>
  | ErrWrap error string           \<comment> \<open>\<open>errors.Wrap(err, msg)\<close>\<close>
  | ErrCouldNotFindCamera string   \<comment> \<open>"could not find camera %q"\<close>
  | ErrCouldNotGetImage string     \<comment> \<open>"could not get image from %s"\<close>
  | ErrCouldNotConvert             \<comment> \<open>"could not convert image to depth map"\<close>
  | ErrNoInfoFromDepthMap          \<comment> \<open>"could not get info from depth map"\<close>
  | ErrNoIntrinsicsFound           \<comment> \<open>"tried to build obstacles depth with intrinsics but no instrinsics found"\<close>
  | ErrNoCameraSpecified           \<comment> \<open>"no camera specified"\<close>
  | errUnimplemented               \<comment> \<open>"obstacles depth service does not implement this method"\<close>
  | ErrResourceNotFound string     \<comment> \<open>what \<open>camera.FromDependencies\<close> reports for a missing name\<close>
  | ErrLibrary string              \<comment> \<open>any error produced inside a library call\<close>
  | PanicIndexOutOfRange           \<comment> \<open>the run-time panic of an index expression out of range\<close>

subsection \<open>Data\<close>

text \<open>\<open>r3.Vector\<close>.\<close>

record Vector =
  X :: real
  Y :: real
  Z :: real

text \<open>\<open>ObsDepthConfig\<close>, the attributes of the configuration surface.\<close>

record ObsDepthConfig =
  MinPtsInPlane :: int
  MinPtsInSegment :: int
  MaxDistFromPlane :: real
  ClusteringRadius :: int
  ClusteringStrictness :: real
  AngleTolerance :: real
  DefaultCamera :: string

text \<open>\<open>segmentation.ErCCLConfig\<close>, with the fields the constructor fills in.\<close>

record ErCCLConfig =
  cc_MinPtsInPlane :: int
  cc_MinPtsInSegment :: int
  cc_MaxDistFromPlane :: real
  cc_NormalVec :: Vector
  cc_AngleTolerance :: real
  cc_ClusteringRadius :: int
  cc_ClusteringStrictness :: real

text \<open>\<open>transform.PinholeCameraIntrinsics\<close>.\<close>

record PinholeCameraIntrinsics =
  pi_Width :: int
  pi_Height :: int
  Fx :: real
  Fy :: real
  Ppx :: real
  Ppy :: real

text \<open>\<open>camera.Properties\<close>: only \<open>IntrinsicParams\<close> is read; \<open>None\<close> is the nil pointer.\<close>

record Properties =
  IntrinsicParams :: "PinholeCameraIntrinsics option"

text \<open>
  \<open>rimage.Depth\<close> is \<open>uint16\<close>. A \<open>*rimage.DepthMap\<close> holds its cells in a slice whose
  backing array lives in the heap at \<open>dm_data\<close>. The accessor \<open>dm.Data()\<close> of rdk returns
  that slice itself, not a copy, so a write through the returned slice is a write to
  the depth map.
\<close>

type_synonym Depth = "16 word"

type_synonym addr = nat

type_synonym heap = "addr \<rightharpoonup> Depth list"

record DepthMap =
  dm_width :: int
  dm_height :: int
  dm_data :: addr

text \<open>
  An \<open>image.Image\<close> as the package sees it: the one thing done with an image is
  \<open>rimage.ConvertImageToDepthMap\<close>, whose outcome the image carries.
\<close>

datatype image = Image (ConvertImageToDepthMap: "error + DepthMap")

text \<open>
  A \<open>camera.Camera\<close> as the package sees it: what \<open>src.Properties(ctx)\<close> and
  \<open>camera.DecodeImageFromCamera(ctx, "", nil, src)\<close> return for it, and how it prints
  under \<open>%s\<close>.
\<close>

record camera =
  cam_string :: string
  cam_Properties :: "error + Properties"
  DecodeImageFromCamera :: "error + image"

text \<open>\<open>spatialmath.Geometry\<close> as built by \<open>spatialmath.NewPoint(v, label)\<close>, and \<open>vis.Object\<close>.\<close>

datatype Geometry = NewPoint Vector string

record Object =
  obj_PointCloud :: "Vector list option"
  obj_Geometry :: "Geometry option"

text \<open>\<open>resource.Dependencies\<close>, restricted to the cameras it can resolve by name.\<close>

type_synonym Dependencies = "string \<rightharpoonup> camera"

text \<open>The service object. \<open>None\<close> is a nil pointer or a nil interface value.\<close>

record obsDepth =
  clusteringConf :: ErCCLConfig
  intrinsics :: "PinholeCameraIntrinsics option"
  deps :: Dependencies
  name :: string
  defaultCamera :: "camera option"

text \<open>The two warnings \<open>buildObsDepth\<close> writes to the logger.\<close>

datatype log_entry =
    WarnNoProperties error   \<comment> \<open>"could not find camera properties. ..." with the error\<close>
  | WarnNoIntrinsics         \<comment> \<open>"obstacles depth started but camera did not have intrinsic parameters"\<close>

text \<open>Everything a call can change: the service object, the heap of depth data, the log.\<close>

record world =
  svc :: obsDepth
  mem :: heap
  logged :: "log_entry list"

text \<open>
  The functions of the rdk libraries that the package calls and that are not part of
  this repository. They are parameters of the model. \<open>CheckValid\<close> has a pointer
  receiver, so it returns the configuration as it leaves it.
\<close>

record Library =
  CheckValid :: "ErCCLConfig \<Rightarrow> error + ErCCLConfig"
  ToPointCloud :: "DepthMap \<Rightarrow> Depth list \<Rightarrow> PinholeCameraIntrinsics \<Rightarrow> Vector list"
  ApplyERCCLToPointCloud :: "Vector list \<Rightarrow> ErCCLConfig \<Rightarrow> error + Object list"

text \<open>\<open>vision.Properties\<close>, \<open>viscapture.CaptureOptions\<close> and \<open>viscapture.VisCapture\<close>.\<close>

record vision_Properties =
  ClassificationSupported :: bool
  DetectionSupported :: bool
  ObjectPCDsSupported :: bool

typedecl Detection

typedecl Classification

typedecl interface

type_synonym extra = "string \<rightharpoonup> interface"

record CaptureOptions =
  ReturnImage :: bool
  ReturnDetections :: bool
  ReturnClassifications :: bool
  ReturnObject :: bool

text \<open>
  In a \<open>VisCapture\<close>, \<open>None\<close> is a field left at its zero value (a nil interface or a
  nil slice) and \<open>Some v\<close> a field that was assigned \<open>v\<close>; \<open>Some []\<close> is the empty,
  non-nil slice literal.
\<close>

record VisCapture =
  vc_Image :: "image option"
  vc_Detections :: "Detection list option"
  vc_Classifications :: "Classification list option"
  vc_Objects :: "Object list option"

subsection \<open>Slices over the heap\<close>

text \<open>The contents of the slice at an address; an address never allocated reads as nil.\<close>

definition cells :: "heap \<Rightarrow> addr \<Rightarrow> Depth list" where
  "cells h a = (case h a of None \<Rightarrow> [] | Some xs \<Rightarrow> xs)"

text \<open>\<open>dm.Data()\<close>: the slice of the depth map itself.\<close>

definition Data :: "DepthMap \<Rightarrow> addr" where
  "Data dm = dm_data dm"

text \<open>
  \<open>sort.Slice(depData, func(i, j) bool { return depData[i] < depData[j] })\<close>: sorts
  the backing array in place. On \<open>uint16\<close> the order \<open><\<close> is total, so the ascending
  arrangement is unique and any correct sorting algorithm produces \<^term>\<open>sort xs\<close>
  (lemma \<open>sort_Slice_unique\<close> below).
\<close>

definition sort_Slice :: "heap \<Rightarrow> addr \<Rightarrow> heap" where
  "sort_Slice h a = (case h a of None \<Rightarrow> h | Some xs \<Rightarrow> h(a \<mapsto> sort xs))"

text \<open>\<open>int(0.5 * float64(n))\<close>.\<close>

definition med_index :: "nat \<Rightarrow> nat" where
  "med_index n = nat \<lfloor>(1 / 2) * real n\<rfloor>"

subsection \<open>Constructor\<close>


text \<open>\<open>camera.FromDependencies(deps, name)\<close>.\<close>

definition FromDependencies :: "Dependencies \<Rightarrow> string \<Rightarrow> error + camera" where
  "FromDependencies ds n =
     (case ds n of None \<Rightarrow> Inl (ErrResourceNotFound n) | Some c \<Rightarrow> Inr c)"

text \<open>The struct literal of \<open>registerObstaclesDepth\<close> ("build the clustering config").\<close>

definition newErCCLConfig :: "ObsDepthConfig \<Rightarrow> ErCCLConfig" where
  "newErCCLConfig conf =
     \<lparr> cc_MinPtsInPlane = MinPtsInPlane conf,
       cc_MinPtsInSegment = MinPtsInSegment conf,
       cc_MaxDistFromPlane = MaxDistFromPlane conf,
       cc_NormalVec = \<lparr> X = 0, Y = - 1, Z = 0 \<rparr>,
       cc_AngleTolerance = AngleTolerance conf,
       cc_ClusteringRadius = ClusteringRadius conf,
       cc_ClusteringStrictness = ClusteringStrictness conf \<rparr>"

definition registerObstaclesDepth ::
  "Library \<Rightarrow> string \<Rightarrow> ObsDepthConfig option \<Rightarrow> Dependencies \<Rightarrow> error + obsDepth" where
  "registerObstaclesDepth lib nm conf ds =
     (case conf of
        None \<Rightarrow> Inl ErrNilConfig
      | Some conf \<Rightarrow>
          (case CheckValid lib (newErCCLConfig conf) of
             Inl err \<Rightarrow> Inl (ErrWrap err ''error building clustering config for obstacles_depth'')
           | Inr cfg \<Rightarrow>
               (case (if DefaultCamera conf \<noteq> []
                      then (case FromDependencies ds (DefaultCamera conf) of
                              Inl err \<Rightarrow> Inl (ErrCouldNotFindCamera (DefaultCamera conf))
                            | Inr c \<Rightarrow> Inr (Some c))
                      else Inr None) of
                  Inl err \<Rightarrow> Inl err
                | Inr defaultCam \<Rightarrow>
                    Inr \<lparr> clusteringConf = cfg,
                          intrinsics = None,
                          deps = ds,
                          name = nm,
                          defaultCamera = defaultCam \<rparr>)))"

subsection \<open>The per-frame pipeline\<close>

text \<open>\<open>obsDepthNoIntrinsics\<close>: the median depth of the depth map as a point.\<close>

definition obsDepthNoIntrinsics :: "camera \<Rightarrow> world \<Rightarrow> (error + Object list) \<times> world" where
  "obsDepthNoIntrinsics src w =
     (case DecodeImageFromCamera src of
        Inl err \<Rightarrow> (Inl (ErrCouldNotGetImage (cam_string src)), w)
      | Inr img \<Rightarrow>
          (case ConvertImageToDepthMap img of
             Inl err \<Rightarrow> (Inl ErrCouldNotConvert, w)
           | Inr dm \<Rightarrow>
               (let depData = Data dm in
                if length (cells (mem w) depData) = 0 then (Inl ErrNoInfoFromDepthMap, w)
                else
                  (let w' = w\<lparr> mem := sort_Slice (mem w) depData \<rparr>;
                       med = med_index (length (cells (mem w') depData))
                   in if med < length (cells (mem w') depData)
                      then
                        (let pt = NewPoint
                                    \<lparr> X = 0, Y = 0,
                                      Z = real (unat (cells (mem w') depData ! med)) \<rparr> [];
                             toReturn = [\<lparr> obj_PointCloud = None, obj_Geometry = Some pt \<rparr>]
                         in (Inr toReturn, w'))
                      else (Inl PanicIndexOutOfRange, w')))))"

text \<open>\<open>obsDepthWithIntrinsics\<close>: project the depth map and cluster the cloud.\<close>

definition obsDepthWithIntrinsics ::
  "Library \<Rightarrow> camera \<Rightarrow> world \<Rightarrow> (error + Object list) \<times> world" where
  "obsDepthWithIntrinsics lib src w =
     (case intrinsics (svc w) of
        None \<Rightarrow> (Inl ErrNoIntrinsicsFound, w)
      | Some intr \<Rightarrow>
          (case DecodeImageFromCamera src of
             Inl err \<Rightarrow> (Inl (ErrCouldNotGetImage (cam_string src)), w)
           | Inr img \<Rightarrow>
               (case ConvertImageToDepthMap img of
                  Inl err \<Rightarrow> (Inl err, w)
                | Inr dm \<Rightarrow>
                    (let cloud = ToPointCloud lib dm (cells (mem w) (Data dm)) intr
                     in (ApplyERCCLToPointCloud lib cloud (clusteringConf (svc w)), w)))))"

text \<open>\<open>buildObsDepth\<close>: check for intrinsics and choose the path.\<close>

definition buildObsDepth ::
  "Library \<Rightarrow> camera \<Rightarrow> world \<Rightarrow> (error + Object list) \<times> world" where
  "buildObsDepth lib src w =
     (case cam_Properties src of
        Inl err \<Rightarrow>
          obsDepthNoIntrinsics src (w\<lparr> logged := logged w @ [WarnNoProperties err] \<rparr>)
      | Inr props \<Rightarrow>
          (case IntrinsicParams props of
             None \<Rightarrow> obsDepthNoIntrinsics src (w\<lparr> logged := logged w @ [WarnNoIntrinsics] \<rparr>)
           | Some intr \<Rightarrow>
               obsDepthWithIntrinsics lib src
                 (w\<lparr> svc := (svc w)\<lparr> intrinsics := Some intr \<rparr> \<rparr>)))"

subsection \<open>The vision interface\<close>

definition GetObjectPointClouds ::
  "Library \<Rightarrow> string \<Rightarrow> extra \<Rightarrow> world \<Rightarrow> (error + Object list) \<times> world" where
  "GetObjectPointClouds lib cameraName ex w =
     (if cameraName \<noteq> [] then
        (case FromDependencies (deps (svc w)) cameraName of
           Inl err \<Rightarrow> (Inl err, w)
         | Inr cam \<Rightarrow> buildObsDepth lib cam w)
      else
        (case defaultCamera (svc w) of
           Some cam \<Rightarrow> buildObsDepth lib cam w
         | None \<Rightarrow> (Inl ErrNoCameraSpecified, w)))"

definition GetProperties :: "obsDepth \<Rightarrow> extra \<Rightarrow> error + vision_Properties" where
  "GetProperties s ex =
     Inr \<lparr> ClassificationSupported = False,
           DetectionSupported = False,
           ObjectPCDsSupported = True \<rparr>"

definition CaptureAllFromCamera ::
  "Library \<Rightarrow> string \<Rightarrow> CaptureOptions \<Rightarrow> extra \<Rightarrow> world \<Rightarrow> (error + VisCapture) \<times> world" where
  "CaptureAllFromCamera lib cameraName captureOptions ex w =
     (case (if cameraName \<noteq> [] then FromDependencies (deps (svc w)) cameraName
            else (case defaultCamera (svc w) of
                    Some cam \<Rightarrow> Inr cam
                  | None \<Rightarrow> Inl ErrNoCameraSpecified)) of
        Inl err \<Rightarrow> (Inl err, w)
      | Inr cam \<Rightarrow>
          (let result = \<lparr> vc_Image = None, vc_Detections = None,
                          vc_Classifications = None, vc_Objects = None \<rparr>
           in case (if ReturnImage captureOptions
                    then (case DecodeImageFromCamera cam of
                            Inl err \<Rightarrow> Inl err
                          | Inr img \<Rightarrow> Inr (result\<lparr> vc_Image := Some img \<rparr>))
                    else Inr result) of
                Inl err \<Rightarrow> (Inl err, w)
              | Inr result \<Rightarrow>
                  (case (if ReturnObject captureOptions
                         then (case GetObjectPointClouds lib cameraName ex w of
                                 (Inl err, w') \<Rightarrow> (Inl err, w')
                               | (Inr objects, w') \<Rightarrow>
                                   (Inr (result\<lparr> vc_Objects := Some objects \<rparr>), w'))
                         else (Inr result, w)) of
                     (Inl err, w') \<Rightarrow> (Inl err, w')
                   | (Inr result, w') \<Rightarrow>
                       (Inr (result\<lparr> vc_Detections := Some [],
                                       vc_Classifications := Some [] \<rparr>), w'))))"

text \<open>The methods the service does not implement; each returns \<open>(nil, errUnimplemented)\<close>.\<close>

definition DetectionsFromCamera :: "obsDepth \<Rightarrow> string \<Rightarrow> extra \<Rightarrow> error + Detection list" where
  "DetectionsFromCamera s cameraName ex = Inl errUnimplemented"

definition Detections :: "obsDepth \<Rightarrow> image \<Rightarrow> extra \<Rightarrow> error + Detection list" where
  "Detections s img ex = Inl errUnimplemented"

definition ClassificationsFromCamera ::
  "obsDepth \<Rightarrow> string \<Rightarrow> int \<Rightarrow> extra \<Rightarrow> error + Classification list" where
  "ClassificationsFromCamera s cameraName n ex = Inl errUnimplemented"

definition Classifications ::
  "obsDepth \<Rightarrow> image \<Rightarrow> int \<Rightarrow> extra \<Rightarrow> error + Classification list" where
  "Classifications s img n ex = Inl errUnimplemented"

definition DoCommand :: "obsDepth \<Rightarrow> extra \<Rightarrow> error + extra" where
  "DoCommand s cmd = Inl errUnimplemented"

subsection \<open>Vocabulary for the properties\<close>

text \<open>The intrinsics a camera reports, if it reports any.\<close>

definition camera_intrinsics :: "camera \<Rightarrow> PinholeCameraIntrinsics option" where
  "camera_intrinsics src =
     (case cam_Properties src of Inl err \<Rightarrow> None | Inr props \<Rightarrow> IntrinsicParams props)"

text \<open>The depth map a camera's image decodes and converts to, if both steps succeed.\<close>

definition camera_depth_map :: "camera \<Rightarrow> DepthMap option" where
  "camera_depth_map src =
     (case DecodeImageFromCamera src of
        Inl err \<Rightarrow> None
      | Inr img \<Rightarrow> (case ConvertImageToDepthMap img of Inl err \<Rightarrow> None | Inr dm \<Rightarrow> Some dm))"

text \<open>The obstacle whose only geometry is the point \<open>(0, 0, z)\<close>, with an empty label.\<close>

definition pointObstacle :: "real \<Rightarrow> Object" where
  "pointObstacle z =
     \<lparr> obj_PointCloud = None, obj_Geometry = Some (NewPoint \<lparr> X = 0, Y = 0, Z = z \<rparr> []) \<rparr>"

text \<open>
  The fallback estimator in the words of the specification: the valid readings are the
  non-zero cells, and the median is their element at index \<open>floor(0.5 * count)\<close> in
  ascending order.
\<close>

definition validReadings :: "Depth list \<Rightarrow> Depth list" where
  "validReadings xs = filter (\<lambda>d. d \<noteq> 0) xs"

definition spec_medianDepth :: "Depth list \<Rightarrow> Depth" where
  "spec_medianDepth xs = sort (validReadings xs) ! (length (validReadings xs) div 2)"

definition spec_fallback :: "Depth list \<Rightarrow> error + Object list" where
  "spec_fallback xs =
     (if validReadings xs = [] then Inl ErrNoInfoFromDepthMap
      else Inr [pointObstacle (real (unat (spec_medianDepth xs)))])"

subsection \<open>A library instance and sample inputs\<close>

text \<open>
  Modelled from the spec: \<open>ErCCLConfig.CheckValid\<close> belongs to the rdk segmentation
  library and is missing from this repository. This validator accepts exactly the ranges
  the specification documents for \<open>ClusterConfig\<close> and leaves the configuration as it is.
\<close>

definition spec_CheckValid :: "ErCCLConfig \<Rightarrow> error + ErCCLConfig" where
  "spec_CheckValid cfg =
     (if cc_MinPtsInPlane cfg < 1 then Inl (ErrLibrary ''min_points_in_plane'')
      else if cc_MinPtsInSegment cfg < 1 then Inl (ErrLibrary ''min_points_in_segment'')
      else if cc_MaxDistFromPlane cfg \<le> 0 then Inl (ErrLibrary ''max_dist_from_plane_mm'')
      else if cc_ClusteringRadius cfg \<le> 0 then Inl (ErrLibrary ''clustering_radius'')
      else if cc_ClusteringStrictness cfg \<le> 0 \<or> 1 < cc_ClusteringStrictness cfg
        then Inl (ErrLibrary ''clustering_strictness'')
      else if cc_AngleTolerance cfg < 0 then Inl (ErrLibrary ''ground_angle_tolerance_degs'')
      else Inr cfg)"

text \<open>
  Modelled from the spec: \<open>depthadapter.ToPointCloud\<close> is missing from this repository.
  One point per non-zero cell, \<open>x = (u - cx) * d / fx\<close>, \<open>y = (v - cy) * d / fy\<close>, \<open>z = d\<close>,
  the cells taken row by row.
\<close>

definition spec_ToPointCloud ::
  "DepthMap \<Rightarrow> Depth list \<Rightarrow> PinholeCameraIntrinsics \<Rightarrow> Vector list" where
  "spec_ToPointCloud dm xs k =
     map (\<lambda>(i, d).
            \<lparr> X = (real_of_int (int i mod dm_width dm) - Ppx k) * real (unat d) / Fx k,
              Y = (real_of_int (int i div dm_width dm) - Ppy k) * real (unat d) / Fy k,
              Z = real (unat d) \<rparr>)
         (filter (\<lambda>(i, d). d \<noteq> 0) (enumerate 0 xs))"

text \<open>
  A stand-in for \<open>segmentation.ApplyERCCLToPointCloud\<close>, to run the model on sample
  inputs: the whole cloud as one object when it has at least \<open>MinPtsInSegment\<close> points.
  No theorem depends on what it computes.
\<close>

definition sample_ApplyERCCL :: "Vector list \<Rightarrow> ErCCLConfig \<Rightarrow> error + Object list" where
  "sample_ApplyERCCL cloud cfg =
     (if int (length cloud) < cc_MinPtsInSegment cfg then Inr []
      else Inr [\<lparr> obj_PointCloud = Some cloud, obj_Geometry = None \<rparr>])"

definition sample_Library :: Library where
  "sample_Library =
     \<lparr> CheckValid = spec_CheckValid,
       ToPointCloud = spec_ToPointCloud,
       ApplyERCCLToPointCloud = sample_ApplyERCCL \<rparr>"

definition sample_conf :: ObsDepthConfig where
  "sample_conf =
     \<lparr> MinPtsInPlane = 500, MinPtsInSegment = 2, MaxDistFromPlane = 100,
       ClusteringRadius = 5, ClusteringStrictness = 1 / 2, AngleTolerance = 30,
       DefaultCamera = [] \<rparr>"

definition sample_dm :: DepthMap where
  "sample_dm = \<lparr> dm_width = 5, dm_height = 1, dm_data = 0 \<rparr>"

definition sample_intrinsics :: PinholeCameraIntrinsics where
  "sample_intrinsics =
     \<lparr> pi_Width = 5, pi_Height = 1, Fx = 2, Fy = 2, Ppx = 2, Ppy = 0 \<rparr>"

text \<open>Three cameras over the same frame: uncalibrated, failing \<open>Properties\<close>, calibrated.\<close>

definition cam_plain :: camera where
  "cam_plain =
     \<lparr> cam_string = ''plain'',
       cam_Properties = Inr \<lparr> IntrinsicParams = None \<rparr>,
       DecodeImageFromCamera = Inr (Image (Inr sample_dm)) \<rparr>"

definition cam_noprops :: camera where
  "cam_noprops =
     \<lparr> cam_string = ''noprops'',
       cam_Properties = Inl (ErrLibrary ''properties unavailable''),
       DecodeImageFromCamera = Inr (Image (Inr sample_dm)) \<rparr>"

definition cam_calibrated :: camera where
  "cam_calibrated =
     \<lparr> cam_string = ''calibrated'',
       cam_Properties = Inr \<lparr> IntrinsicParams = Some sample_intrinsics \<rparr>,
       DecodeImageFromCamera = Inr (Image (Inr sample_dm)) \<rparr>"

definition sample_deps :: Dependencies where
  "sample_deps = [''plain'' \<mapsto> cam_plain, ''calibrated'' \<mapsto> cam_calibrated]"

text \<open>A service as the constructor leaves it, and a world holding one frame.\<close>

definition sample_svc :: "camera option \<Rightarrow> obsDepth" where
  "sample_svc d =
     \<lparr> clusteringConf = newErCCLConfig sample_conf, intrinsics = None,
       deps = sample_deps, name = ''obstacles'', defaultCamera = d \<rparr>"

definition sample_world :: "camera option \<Rightarrow> Depth list \<Rightarrow> world" where
  "sample_world d xs = \<lparr> svc = sample_svc d, mem = [0 \<mapsto> xs], logged = [] \<rparr>"




section \<open>Properties\<close>

subsection \<open>Auxiliary facts\<close>

lemma med_index_div2: "med_index n = n div 2"
proof -
  have "\<lfloor>real n / real 2\<rfloor> = int (n div 2)"
    by (rule floor_divide_of_nat_eq)
  then show ?thesis by (simp add: med_index_def)
qed

lemma med_index_in_range: "0 < n \<Longrightarrow> med_index n < n"
  by (simp add: med_index_div2)

text \<open>An ascending arrangement of the same cells is the one \<^const>\<open>sort\<close> computes.\<close>

lemma sort_Slice_unique:
  fixes xs ys :: "Depth list"
  assumes "mset ys = mset xs" and "sorted ys"
  shows "ys = sort xs"
  using assms by (simp add: properties_for_sort)

lemma cells_sort_Slice: "cells (sort_Slice h a) a = sort (cells h a)"
  by (simp add: cells_def sort_Slice_def split: option.splits)

lemma sort_Slice_other: "b \<noteq> a \<Longrightarrow> sort_Slice h a b = h b"
  by (simp add: sort_Slice_def split: option.splits)

lemma mset_cells_sort_Slice: "mset (cells (sort_Slice h a) b) = mset (cells h b)"
  by (cases "b = a") (simp_all add: cells_sort_Slice, simp add: cells_def sort_Slice_other)

lemma obsDepthNoIntrinsics_mem:
  "mem (snd (obsDepthNoIntrinsics src w)) =
     (case camera_depth_map src of None \<Rightarrow> mem w | Some dm \<Rightarrow> sort_Slice (mem w) (Data dm))"
proof (cases "camera_depth_map src")
  case None
  then show ?thesis
    by (simp add: obsDepthNoIntrinsics_def camera_depth_map_def split: sum.splits)
next
  case (Some dm)
  then have img: "\<exists>img. DecodeImageFromCamera src = Inr img \<and> ConvertImageToDepthMap img = Inr dm"
    by (simp add: camera_depth_map_def split: sum.splits)
  show ?thesis
  proof (cases "cells (mem w) (Data dm) = []")
    case True
    then have "sort_Slice (mem w) (Data dm) = mem w"
      by (auto simp: cells_def sort_Slice_def split: option.splits)
    with img Some True show ?thesis
      by (auto simp: obsDepthNoIntrinsics_def Let_def)
  next
    case False
    with img Some show ?thesis
      by (auto simp: obsDepthNoIntrinsics_def Let_def)
  qed
qed

lemma obsDepthNoIntrinsics_svc: "svc (snd (obsDepthNoIntrinsics src w)) = svc w"
  by (simp add: obsDepthNoIntrinsics_def Let_def split: sum.splits)

lemma obsDepthNoIntrinsics_fst_logged:
  "fst (obsDepthNoIntrinsics src (w\<lparr> logged := l \<rparr>)) = fst (obsDepthNoIntrinsics src w)"
  by (simp add: obsDepthNoIntrinsics_def Let_def split: sum.splits)

lemma obsDepthWithIntrinsics_frame:
  "mem (snd (obsDepthWithIntrinsics lib src w)) = mem w \<and>
   svc (snd (obsDepthWithIntrinsics lib src w)) = svc w"
  by (simp add: obsDepthWithIntrinsics_def Let_def split: option.splits sum.splits)

lemma sort_Slice_id_iff: "sort_Slice h a = h \<longleftrightarrow> sorted (cells h a)"
proof (cases "h a")
  case None
  then show ?thesis by (simp add: sort_Slice_def cells_def)
next
  case (Some xs)
  have "h(a \<mapsto> sort xs) = h \<longleftrightarrow> sort xs = xs"
    using Some by (metis fun_upd_same fun_upd_triv option.inject)
  moreover have "sort xs = xs \<longleftrightarrow> sorted xs"
    by (metis sorted_sort sorted_sort_id)
  ultimately show ?thesis using Some by (simp add: sort_Slice_def cells_def)
qed

lemma buildObsDepth_mem:
  "mem (snd (buildObsDepth lib src w)) =
     (case camera_intrinsics src of
        Some k \<Rightarrow> mem w
      | None \<Rightarrow>
          (case camera_depth_map src of
             None \<Rightarrow> mem w
           | Some dm \<Rightarrow> sort_Slice (mem w) (Data dm)))"
  by (simp add: buildObsDepth_def camera_intrinsics_def obsDepthNoIntrinsics_mem
      obsDepthWithIntrinsics_frame split: sum.splits option.splits)

lemma buildObsDepth_svc:
  "svc (snd (buildObsDepth lib src w)) =
     (case camera_intrinsics src of
        Some k \<Rightarrow> (svc w)\<lparr> intrinsics := Some k \<rparr>
      | None \<Rightarrow> svc w)"
  by (simp add: buildObsDepth_def camera_intrinsics_def obsDepthNoIntrinsics_svc
      obsDepthWithIntrinsics_frame split: sum.splits option.splits)

text \<open>The fallback estimator in closed form.\<close>

lemma obsDepthNoIntrinsics_cases:
  "obsDepthNoIntrinsics src w =
     (case camera_depth_map src of
        None \<Rightarrow>
          (Inl (if isl (DecodeImageFromCamera src) then ErrCouldNotGetImage (cam_string src)
                else ErrCouldNotConvert), w)
      | Some dm \<Rightarrow>
          (if cells (mem w) (Data dm) = [] then (Inl ErrNoInfoFromDepthMap, w)
           else (Inr [pointObstacle
                        (real (unat (sort (cells (mem w) (Data dm)) !
                                       (length (cells (mem w) (Data dm)) div 2))))],
                 w\<lparr> mem := sort_Slice (mem w) (Data dm) \<rparr>)))"
proof (cases "camera_depth_map src")
  case None
  then show ?thesis
    by (auto simp: obsDepthNoIntrinsics_def camera_depth_map_def split: sum.splits)
next
  case (Some dm)
  then obtain img where
    img: "DecodeImageFromCamera src = Inr img" "ConvertImageToDepthMap img = Inr dm"
    by (auto simp: camera_depth_map_def split: sum.splits)
  show ?thesis
  proof (cases "cells (mem w) (Data dm) = []")
    case True
    with img Some show ?thesis by (simp add: obsDepthNoIntrinsics_def)
  next
    case False
    then have "length (cells (mem w) (Data dm)) div 2 < length (cells (mem w) (Data dm))"
      by simp
    with False img Some show ?thesis
      by (simp add: obsDepthNoIntrinsics_def Let_def cells_sort_Slice med_index_div2
          pointObstacle_def)
  qed
qed

lemmas sample_defs =
  sample_Library_def sample_conf_def sample_dm_def sample_intrinsics_def cam_plain_def
  cam_noprops_def cam_calibrated_def sample_deps_def sample_svc_def sample_world_def

lemmas pipeline_defs =
  obsDepthNoIntrinsics_def obsDepthWithIntrinsics_def buildObsDepth_def
  GetObjectPointClouds_def FromDependencies_def Data_def cells_def sort_Slice_def
  med_index_div2 Let_def

subsection \<open>The fallback estimator\<close>

text \<open>
  Claim C1, as the code has it. When the camera's image converts to a depth map, the
  fallback path looks at all the cells of the map, zero cells included: with no cell at
  all it fails with "could not get info from depth map"; otherwise it returns exactly
  one obstacle, the point \<open>(0, 0, m)\<close> where \<open>m\<close> is the cell at index
  \<open>floor(0.5 * count)\<close> of all the cells in ascending order. The index is always in
  range, so the index expression never panics.
\<close>

theorem fallback_median_of_all_cells:
  assumes "camera_depth_map src = Some dm"
    and "cells (mem w) (Data dm) = xs"
  shows "fst (obsDepthNoIntrinsics src w) =
           (if xs = [] then Inl ErrNoInfoFromDepthMap
            else Inr [pointObstacle (real (unat (sort xs ! (length xs div 2))))])"
proof (cases "xs = []")
  case True
  with assms show ?thesis by (simp add: obsDepthNoIntrinsics_cases)
next
  case False
  with assms show ?thesis by (simp add: obsDepthNoIntrinsics_cases)
qed

text \<open>
  The readings 10, 20, 30, 40, 50, in any order, give the point \<open>(0, 0, 30)\<close>; a map
  without cells fails.
\<close>

theorem fallback_median_of_all_cells_witness:
  "camera_depth_map cam_plain = Some sample_dm \<and>
   cells (mem (sample_world None [50, 10, 40, 20, 30])) (Data sample_dm) = [50, 10, 40, 20, 30] \<and>
   fst (obsDepthNoIntrinsics cam_plain (sample_world None [50, 10, 40, 20, 30])) =
     Inr [pointObstacle 30] \<and>
   fst (obsDepthNoIntrinsics cam_plain (sample_world None [])) = Inl ErrNoInfoFromDepthMap"
proof -
  have dm: "camera_depth_map cam_plain = Some sample_dm"
    by (simp add: camera_depth_map_def cam_plain_def)
  have c1: "cells (mem (sample_world None [50, 10, 40, 20, 30])) (Data sample_dm) =
              [50, 10, 40, 20, 30]"
    by (simp add: cells_def sample_world_def Data_def sample_dm_def)
  have c2: "cells (mem (sample_world None [])) (Data sample_dm) = []"
    by (simp add: cells_def sample_world_def Data_def sample_dm_def)
  show ?thesis
    using dm c1 fallback_median_of_all_cells [OF dm c1] fallback_median_of_all_cells [OF dm c2]
    by simp
qed

text \<open>
  Claim C1 as stated fails: the cells 0, 0, 0, 5, 6 have the valid readings 5, 6, whose
  median in the claim's sense is 6, but the code returns the point \<open>(0, 0, 0)\<close>; and a
  map whose cells are all zero has no valid reading, but the code returns the point
  \<open>(0, 0, 0)\<close> instead of failing.
\<close>

theorem fallback_valid_readings_counterexample:
  "fst (obsDepthNoIntrinsics cam_plain (sample_world None [0, 0, 0, 5, 6])) = Inr [pointObstacle 0] \<and>
   spec_fallback [0, 0, 0, 5, 6] = Inr [pointObstacle 6] \<and>
   fst (obsDepthNoIntrinsics cam_plain (sample_world None [0, 0, 0, 5, 6])) \<noteq>
     spec_fallback [0, 0, 0, 5, 6] \<and>
   fst (obsDepthNoIntrinsics cam_plain (sample_world None [0, 0])) = Inr [pointObstacle 0] \<and>
   spec_fallback [0, 0] = Inl ErrNoInfoFromDepthMap"
  by (simp add: pipeline_defs sample_defs pointObstacle_def spec_fallback_def
      spec_medianDepth_def validReadings_def)

subsection \<open>What a frame leaves behind\<close>

text \<open>
  Claim C2, as the code has it. The calibrated path leaves the heap of depth data as it
  was (the repository's own code writes nothing; the library calls receive the cells
  as values). So does the fallback path when the image cannot be decoded or converted.
  Otherwise the fallback path sorts the depth map's own cells in place: afterwards the
  map holds its cells in ascending order, every other array is untouched, and the map
  is unchanged exactly when its cells were in ascending order already. In every case
  each array keeps its cells as a multiset.
\<close>

theorem depth_map_sorted_in_place:
  "(camera_intrinsics src \<noteq> None \<longrightarrow> mem (snd (buildObsDepth lib src w)) = mem w) \<and>
   (camera_intrinsics src = None \<longrightarrow> camera_depth_map src = None \<longrightarrow>
      mem (snd (buildObsDepth lib src w)) = mem w) \<and>
   (camera_intrinsics src = None \<longrightarrow> camera_depth_map src = Some dm \<longrightarrow>
      cells (mem (snd (buildObsDepth lib src w))) (Data dm) = sort (cells (mem w) (Data dm)) \<and>
      (\<forall>a. a \<noteq> Data dm \<longrightarrow> mem (snd (buildObsDepth lib src w)) a = mem w a) \<and>
      (mem (snd (buildObsDepth lib src w)) = mem w \<longleftrightarrow> sorted (cells (mem w) (Data dm)))) \<and>
   mset (cells (mem (snd (buildObsDepth lib src w))) b) = mset (cells (mem w) b)"
proof -
  have "mset (cells (mem (snd (buildObsDepth lib src w))) b) = mset (cells (mem w) b)"
    by (simp add: buildObsDepth_mem mset_cells_sort_Slice split: option.splits)
  then show ?thesis
    by (auto simp: buildObsDepth_mem cells_sort_Slice sort_Slice_other sort_Slice_id_iff)
qed

theorem depth_map_sorted_in_place_witness:
  "camera_intrinsics cam_calibrated \<noteq> None \<and>
   mem (snd (buildObsDepth sample_Library cam_calibrated (sample_world None [30, 10, 20]))) =
     mem (sample_world None [30, 10, 20]) \<and>
   camera_intrinsics cam_plain = None \<and> camera_depth_map cam_plain = Some sample_dm \<and>
   cells (mem (snd (buildObsDepth sample_Library cam_plain (sample_world None [30, 10, 20]))))
     (Data sample_dm) = [10, 20, 30]"
proof -
  have i1: "camera_intrinsics cam_calibrated \<noteq> None"
    by (simp add: camera_intrinsics_def cam_calibrated_def)
  have i2: "camera_intrinsics cam_plain = None"
    by (simp add: camera_intrinsics_def cam_plain_def)
  have dm: "camera_depth_map cam_plain = Some sample_dm"
    by (simp add: camera_depth_map_def cam_plain_def)
  have c: "sort (cells (mem (sample_world None [30, 10, 20])) (Data sample_dm)) = [10, 20, 30]"
    by (simp add: cells_def sample_world_def Data_def sample_dm_def)
  show ?thesis
    using i1 i2 dm c
      depth_map_sorted_in_place [of cam_calibrated sample_Library "sample_world None [30, 10, 20]"
        sample_dm 0]
      depth_map_sorted_in_place [of cam_plain sample_Library "sample_world None [30, 10, 20]"
        sample_dm 0]
    by simp
qed

text \<open>
  Claim C2 as stated fails: a camera without intrinsics whose frame holds the cells
  30, 10, 20 leaves the pipeline with the cells 10, 20, 30.
\<close>

theorem depth_map_unchanged_counterexample:
  "cells (mem (sample_world None [30, 10, 20])) (Data sample_dm) = [30, 10, 20] \<and>
   cells (mem (snd (buildObsDepth sample_Library cam_plain (sample_world None [30, 10, 20]))))
     (Data sample_dm) = [10, 20, 30] \<and>
   mem (snd (buildObsDepth sample_Library cam_plain (sample_world None [30, 10, 20]))) \<noteq>
     mem (sample_world None [30, 10, 20])"
proof -
  have a: "cells (mem (sample_world None [30, 10, 20])) (Data sample_dm) = [30, 10, 20]"
    by (simp add: cells_def sample_world_def Data_def sample_dm_def)
  have b: "cells (mem (snd (buildObsDepth sample_Library cam_plain
             (sample_world None [30, 10, 20])))) (Data sample_dm) = [10, 20, 30]"
    by (simp add: pipeline_defs sample_defs)
  from a b have "cells (mem (snd (buildObsDepth sample_Library cam_plain
             (sample_world None [30, 10, 20])))) (Data sample_dm) \<noteq>
           cells (mem (sample_world None [30, 10, 20])) (Data sample_dm)"
    by simp
  then have "mem (snd (buildObsDepth sample_Library cam_plain (sample_world None [30, 10, 20]))) \<noteq>
     mem (sample_world None [30, 10, 20])"
    by metis
  with a b show ?thesis by simp
qed

text \<open>
  Claim C3, as the code has it. A call of \<open>GetObjectPointClouds\<close> writes one field of the
  service object and no other: \<open>buildObsDepth\<close> stores the intrinsics the camera reports
  in \<open>o.intrinsics\<close> before it takes the calibrated path. The clustering configuration,
  the dependencies, the name and the default camera are never written, and on the
  fallback path the service object is left as it was.
\<close>

theorem service_state_frame:
  "svc (snd (GetObjectPointClouds lib n ex w)) =
     (svc w)\<lparr> intrinsics := intrinsics (svc (snd (GetObjectPointClouds lib n ex w))) \<rparr> \<and>
   (svc (snd (GetObjectPointClouds lib n ex w)) = svc w \<or>
    (\<exists>cam k. camera_intrinsics cam = Some k \<and>
       svc (snd (GetObjectPointClouds lib n ex w)) = (svc w)\<lparr> intrinsics := Some k \<rparr>)) \<and>
   (camera_intrinsics src = None \<longrightarrow> svc (snd (buildObsDepth lib src w)) = svc w) \<and>
   (camera_intrinsics src = Some k' \<longrightarrow>
      svc (snd (buildObsDepth lib src w)) = (svc w)\<lparr> intrinsics := Some k' \<rparr>) \<and>
   ((n = [] \<and> defaultCamera (svc w) = None) \<or> (n \<noteq> [] \<and> deps (svc w) n = None) \<longrightarrow>
      svc (snd (GetObjectPointClouds lib n ex w)) = svc w) \<and>
   ((n = [] \<and> defaultCamera (svc w) = Some sel) \<or> (n \<noteq> [] \<and> deps (svc w) n = Some sel) \<longrightarrow>
      svc (snd (GetObjectPointClouds lib n ex w)) = svc (snd (buildObsDepth lib sel w)))"
proof -
  have unresolved: "(n = [] \<and> defaultCamera (svc w) = None) \<or>
      (n \<noteq> [] \<and> deps (svc w) n = None) \<longrightarrow>
      svc (snd (GetObjectPointClouds lib n ex w)) = svc w"
    by (auto simp: GetObjectPointClouds_def FromDependencies_def)
  have resolved: "(n = [] \<and> defaultCamera (svc w) = Some sel) \<or>
      (n \<noteq> [] \<and> deps (svc w) n = Some sel) \<longrightarrow>
      svc (snd (GetObjectPointClouds lib n ex w)) = svc (snd (buildObsDepth lib sel w))"
    by (auto simp: GetObjectPointClouds_def FromDependencies_def)
  have build: "svc (snd (buildObsDepth lib c w)) = svc w \<or>
      (\<exists>k. camera_intrinsics c = Some k \<and>
         svc (snd (buildObsDepth lib c w)) = (svc w)\<lparr> intrinsics := Some k \<rparr>)" for c
    by (cases "camera_intrinsics c") (simp_all add: buildObsDepth_svc)
  have get: "svc (snd (GetObjectPointClouds lib n ex w)) = svc w \<or>
      (\<exists>cam k. camera_intrinsics cam = Some k \<and>
         svc (snd (GetObjectPointClouds lib n ex w)) = (svc w)\<lparr> intrinsics := Some k \<rparr>)"
    using build
    by (auto simp: GetObjectPointClouds_def split: sum.splits option.splits)
  from get have "svc (snd (GetObjectPointClouds lib n ex w)) =
     (svc w)\<lparr> intrinsics := intrinsics (svc (snd (GetObjectPointClouds lib n ex w))) \<rparr>"
    by auto
  with get unresolved resolved show ?thesis by (simp add: buildObsDepth_svc)
qed

theorem service_state_frame_witness:
  "camera_intrinsics cam_plain = None \<and>
   svc (snd (buildObsDepth sample_Library cam_plain (sample_world None [30, 10, 20]))) =
     sample_svc None \<and>
   camera_intrinsics cam_calibrated = Some sample_intrinsics \<and>
   svc (snd (buildObsDepth sample_Library cam_calibrated (sample_world None [30, 10, 20]))) =
     (sample_svc None)\<lparr> intrinsics := Some sample_intrinsics \<rparr>"
proof -
  have i1: "camera_intrinsics cam_plain = None"
    by (simp add: camera_intrinsics_def cam_plain_def)
  have i2: "camera_intrinsics cam_calibrated = Some sample_intrinsics"
    by (simp add: camera_intrinsics_def cam_calibrated_def)
  have s: "svc (sample_world None [30, 10, 20]) = sample_svc None"
    by (simp add: sample_world_def)
  show ?thesis
    using i1 i2 s
      service_state_frame [of sample_Library "[]" Map.empty "sample_world None [30, 10, 20]"
        cam_plain sample_intrinsics]
      service_state_frame [of sample_Library "[]" Map.empty "sample_world None [30, 10, 20]"
        cam_calibrated sample_intrinsics]
    by simp
qed

text \<open>
  Claim C3 as stated fails: a service built without intrinsics that is asked for the
  obstacles of a calibrated camera holds that camera's intrinsics afterwards.
\<close>

theorem service_state_unchanged_counterexample:
  "intrinsics (svc (sample_world None [30, 10, 20])) = None \<and>
   intrinsics (svc (snd (GetObjectPointClouds sample_Library ''calibrated'' Map.empty
      (sample_world None [30, 10, 20])))) = Some sample_intrinsics \<and>
   svc (snd (GetObjectPointClouds sample_Library ''calibrated'' Map.empty
      (sample_world None [30, 10, 20]))) \<noteq> svc (sample_world None [30, 10, 20])"
proof -
  have a: "intrinsics (svc (sample_world None [30, 10, 20])) = None"
    by (simp add: sample_world_def sample_svc_def)
  have cam: "FromDependencies (deps (svc (sample_world None [30, 10, 20]))) ''calibrated'' =
      Inr cam_calibrated"
    by (simp add: FromDependencies_def sample_world_def sample_svc_def sample_deps_def)
  have i: "camera_intrinsics cam_calibrated = Some sample_intrinsics"
    by (simp add: camera_intrinsics_def cam_calibrated_def)
  have b: "intrinsics (svc (snd (GetObjectPointClouds sample_Library ''calibrated'' Map.empty
      (sample_world None [30, 10, 20])))) = Some sample_intrinsics"
    using cam i by (simp add: GetObjectPointClouds_def buildObsDepth_svc)
  from a b show ?thesis by auto
qed

subsection \<open>Choosing the path\<close>

text \<open>
  Claim C4. When \<open>Properties\<close> fails or reports no intrinsics, \<open>buildObsDepth\<close> logs a
  warning and runs the fallback estimator; only when the camera reports intrinsics
  does it store them and run the calibrated path (projection, then clustering with the
  service's configuration). Missing intrinsics are never the reason for an error: the
  result is the fallback's own, its only errors are those of fetching, converting and
  reading the depth map, and with a depth map that has a cell the call succeeds.
\<close>

theorem path_selection:
  "(cam_Properties src = Inl e \<longrightarrow>
      buildObsDepth lib src w =
        obsDepthNoIntrinsics src (w\<lparr> logged := logged w @ [WarnNoProperties e] \<rparr>)) \<and>
   (cam_Properties src = Inr p \<longrightarrow> IntrinsicParams p = None \<longrightarrow>
      buildObsDepth lib src w =
        obsDepthNoIntrinsics src (w\<lparr> logged := logged w @ [WarnNoIntrinsics] \<rparr>)) \<and>
   (cam_Properties src = Inr p \<longrightarrow> IntrinsicParams p = Some k \<longrightarrow>
      buildObsDepth lib src w =
        obsDepthWithIntrinsics lib src (w\<lparr> svc := (svc w)\<lparr> intrinsics := Some k \<rparr> \<rparr>)) \<and>
   (camera_intrinsics src = None \<longrightarrow>
      fst (buildObsDepth lib src w) = fst (obsDepthNoIntrinsics src w) \<and>
      fst (buildObsDepth lib src w) \<noteq> Inl ErrNoIntrinsicsFound \<and>
      (\<forall>err. fst (buildObsDepth lib src w) = Inl err \<longrightarrow>
         err = ErrCouldNotGetImage (cam_string src) \<or> err = ErrCouldNotConvert \<or>
         err = ErrNoInfoFromDepthMap)) \<and>
   (camera_intrinsics src = None \<longrightarrow> camera_depth_map src = Some dm \<longrightarrow>
      cells (mem w) (Data dm) \<noteq> [] \<longrightarrow>
      (\<exists>z. fst (buildObsDepth lib src w) = Inr [pointObstacle z])) \<and>
   (camera_intrinsics src = Some k \<longrightarrow> camera_depth_map src = Some dm \<longrightarrow>
      fst (buildObsDepth lib src w) =
        ApplyERCCLToPointCloud lib (ToPointCloud lib dm (cells (mem w) (Data dm)) k)
          (clusteringConf (svc w)))"
proof -
  have fallback: "fst (buildObsDepth lib src w) = fst (obsDepthNoIntrinsics src w)"
    if "camera_intrinsics src = None"
    using that
    by (auto simp: buildObsDepth_def camera_intrinsics_def obsDepthNoIntrinsics_fst_logged
        split: sum.splits)
  have errs: "err = ErrCouldNotGetImage (cam_string src) \<or> err = ErrCouldNotConvert \<or>
      err = ErrNoInfoFromDepthMap"
    if "fst (obsDepthNoIntrinsics src w) = Inl err" for err
    using that
    by (auto simp: obsDepthNoIntrinsics_cases split: option.splits if_splits)
  have ok: "\<exists>z. fst (obsDepthNoIntrinsics src w) = Inr [pointObstacle z]"
    if "camera_depth_map src = Some dm" "cells (mem w) (Data dm) \<noteq> []"
    using that by (auto simp: obsDepthNoIntrinsics_cases)
  have calibrated: "fst (buildObsDepth lib src w) =
        ApplyERCCLToPointCloud lib (ToPointCloud lib dm (cells (mem w) (Data dm)) k)
          (clusteringConf (svc w))"
    if "camera_intrinsics src = Some k" "camera_depth_map src = Some dm"
    using that
    by (auto simp: buildObsDepth_def obsDepthWithIntrinsics_def camera_intrinsics_def
        camera_depth_map_def Let_def split: sum.splits)
  have p1: "cam_Properties src = Inl e \<longrightarrow>
      buildObsDepth lib src w =
        obsDepthNoIntrinsics src (w\<lparr> logged := logged w @ [WarnNoProperties e] \<rparr>)"
    by (simp add: buildObsDepth_def)
  have p2: "cam_Properties src = Inr p \<longrightarrow> IntrinsicParams p = None \<longrightarrow>
      buildObsDepth lib src w =
        obsDepthNoIntrinsics src (w\<lparr> logged := logged w @ [WarnNoIntrinsics] \<rparr>)"
    by (simp add: buildObsDepth_def)
  have p3: "cam_Properties src = Inr p \<longrightarrow> IntrinsicParams p = Some k \<longrightarrow>
      buildObsDepth lib src w =
        obsDepthWithIntrinsics lib src (w\<lparr> svc := (svc w)\<lparr> intrinsics := Some k \<rparr> \<rparr>)"
    by (simp add: buildObsDepth_def)
  have p4: "camera_intrinsics src = None \<longrightarrow>
      fst (buildObsDepth lib src w) = fst (obsDepthNoIntrinsics src w) \<and>
      fst (buildObsDepth lib src w) \<noteq> Inl ErrNoIntrinsicsFound \<and>
      (\<forall>err. fst (buildObsDepth lib src w) = Inl err \<longrightarrow>
         err = ErrCouldNotGetImage (cam_string src) \<or> err = ErrCouldNotConvert \<or>
         err = ErrNoInfoFromDepthMap)"
    by (auto simp: fallback dest!: errs)
  have p5: "camera_intrinsics src = None \<longrightarrow> camera_depth_map src = Some dm \<longrightarrow>
      cells (mem w) (Data dm) \<noteq> [] \<longrightarrow>
      (\<exists>z. fst (buildObsDepth lib src w) = Inr [pointObstacle z])"
    using fallback ok by simp
  from p1 p2 p3 p4 p5 calibrated show ?thesis by blast
qed

theorem path_selection_witness:
  "cam_Properties cam_noprops = Inl (ErrLibrary ''properties unavailable'') \<and>
   buildObsDepth sample_Library cam_noprops (sample_world None [50, 10, 40, 20, 30]) =
     obsDepthNoIntrinsics cam_noprops
       ((sample_world None [50, 10, 40, 20, 30])
          \<lparr> logged := [WarnNoProperties (ErrLibrary ''properties unavailable'')] \<rparr>) \<and>
   camera_intrinsics cam_plain = None \<and> camera_depth_map cam_plain = Some sample_dm \<and>
   fst (buildObsDepth sample_Library cam_plain (sample_world None [50, 10, 40, 20, 30])) =
     Inr [pointObstacle 30] \<and>
   camera_intrinsics cam_calibrated = Some sample_intrinsics \<and>
   camera_depth_map cam_calibrated = Some sample_dm \<and>
   fst (buildObsDepth sample_Library cam_calibrated (sample_world None [50, 10, 40, 20, 30])) =
     sample_ApplyERCCL
       (spec_ToPointCloud sample_dm [50, 10, 40, 20, 30] sample_intrinsics)
       (newErCCLConfig sample_conf)"
proof -
  let ?w = "sample_world None [50, 10, 40, 20, 30]"
  have a: "cam_Properties cam_noprops = Inl (ErrLibrary ''properties unavailable'')"
    by (simp add: cam_noprops_def)
  have i1: "camera_intrinsics cam_plain = None"
    by (simp add: camera_intrinsics_def cam_plain_def)
  have d1: "camera_depth_map cam_plain = Some sample_dm"
    by (simp add: camera_depth_map_def cam_plain_def)
  have i2: "camera_intrinsics cam_calibrated = Some sample_intrinsics"
    by (simp add: camera_intrinsics_def cam_calibrated_def)
  have d2: "camera_depth_map cam_calibrated = Some sample_dm"
    by (simp add: camera_depth_map_def cam_calibrated_def)
  have c: "cells (mem ?w) (Data sample_dm) = [50, 10, 40, 20, 30]"
    by (simp add: cells_def sample_world_def Data_def sample_dm_def)
  have l: "logged ?w = []" "svc ?w = sample_svc None"
    by (simp_all add: sample_world_def)
  have f: "fst (obsDepthNoIntrinsics cam_plain ?w) = Inr [pointObstacle 30]"
    using d1 c by (simp add: obsDepthNoIntrinsics_cases)
  have lib: "ApplyERCCLToPointCloud sample_Library = sample_ApplyERCCL"
    "ToPointCloud sample_Library = spec_ToPointCloud"
    "clusteringConf (sample_svc None) = newErCCLConfig sample_conf"
    by (simp_all add: sample_Library_def sample_svc_def)
  show ?thesis
    using a i1 d1 i2 d2 c l f lib
      path_selection [of cam_noprops "ErrLibrary ''properties unavailable''" sample_Library ?w
        undefined sample_intrinsics sample_dm]
      path_selection [of cam_plain undefined sample_Library ?w undefined sample_intrinsics
        sample_dm]
      path_selection [of cam_calibrated undefined sample_Library ?w undefined sample_intrinsics
        sample_dm]
    by simp
qed

subsection \<open>Construction\<close>

lemma spec_CheckValid_Inr: "spec_CheckValid c = Inr c' \<Longrightarrow> c' = c"
  by (simp add: spec_CheckValid_def split: if_splits)




text \<open>
  Claim C8, as the code has it. The normal vector of the clustering configuration is
  not configurable: \<open>ObsDepthConfig\<close> has no field for it, and the constructor builds
  every configuration with the normal \<open>(0, -1, 0)\<close>. That configuration is what
  \<open>CheckValid\<close> receives, the service keeps what \<open>CheckValid\<close> returns, and so, with a
  validator that leaves the normal alone, every constructed service has the normal
  \<open>(0, -1, 0)\<close>.
\<close>

theorem ground_normal_fixed:
  "cc_NormalVec (newErCCLConfig conf) = \<lparr> X = 0, Y = - 1, Z = 0 \<rparr> \<and>
   (registerObstaclesDepth lib nm (Some conf) ds = Inr s \<longrightarrow>
      CheckValid lib (newErCCLConfig conf) = Inr (clusteringConf s)) \<and>
   ((\<forall>c c'. CheckValid lib c = Inr c' \<longrightarrow> cc_NormalVec c' = cc_NormalVec c) \<longrightarrow>
      registerObstaclesDepth lib nm (Some conf) ds = Inr s \<longrightarrow>
      cc_NormalVec (clusteringConf s) = \<lparr> X = 0, Y = - 1, Z = 0 \<rparr>)"
proof -
  have n: "cc_NormalVec (newErCCLConfig conf) = \<lparr> X = 0, Y = - 1, Z = 0 \<rparr>"
    by (simp add: newErCCLConfig_def)
  have r: "CheckValid lib (newErCCLConfig conf) = Inr (clusteringConf s)"
    if "registerObstaclesDepth lib nm (Some conf) ds = Inr s"
    using that
    by (auto simp: registerObstaclesDepth_def split: sum.splits if_splits)
  from n r show ?thesis by metis
qed

theorem ground_normal_fixed_witness:
  "registerObstaclesDepth sample_Library ''obstacles'' (Some sample_conf) sample_deps =
     Inr (sample_svc None) \<and>
   cc_NormalVec (clusteringConf (sample_svc None)) = \<lparr> X = 0, Y = - 1, Z = 0 \<rparr>"
proof -
  have p: "\<forall>c c'. CheckValid sample_Library c = Inr c' \<longrightarrow> cc_NormalVec c' = cc_NormalVec c"
    by (auto simp: sample_Library_def dest: spec_CheckValid_Inr)
  have r: "registerObstaclesDepth sample_Library ''obstacles'' (Some sample_conf) sample_deps =
     Inr (sample_svc None)"
    by (simp add: registerObstaclesDepth_def sample_Library_def spec_CheckValid_def
        newErCCLConfig_def sample_conf_def sample_svc_def)
  show ?thesis
    using p r
      ground_normal_fixed [of sample_conf sample_Library "''obstacles''" sample_deps
        "sample_svc None"]
    by blast
qed

text \<open>
  Claim C8 as stated fails: the unit vector \<open>(0, 0, 1)\<close> cannot be configured as the
  ground normal; no configuration and no set of dependencies yields a service whose
  clustering configuration has it.
\<close>

theorem ground_normal_configurable_counterexample:
  "\<not> (\<exists>conf ds s.
        registerObstaclesDepth sample_Library ''obstacles'' (Some conf) ds = Inr s \<and>
        cc_NormalVec (clusteringConf s) = \<lparr> X = 0, Y = 0, Z = 1 \<rparr>)"
proof
  assume "\<exists>conf ds s.
        registerObstaclesDepth sample_Library ''obstacles'' (Some conf) ds = Inr s \<and>
        cc_NormalVec (clusteringConf s) = \<lparr> X = 0, Y = 0, Z = 1 \<rparr>"
  then obtain conf ds s where
    r: "registerObstaclesDepth sample_Library ''obstacles'' (Some conf) ds = Inr s" and
    v: "cc_NormalVec (clusteringConf s) = \<lparr> X = 0, Y = 0, Z = 1 \<rparr>"
    by blast
  from r have "spec_CheckValid (newErCCLConfig conf) = Inr (clusteringConf s)"
    by (auto simp: registerObstaclesDepth_def sample_Library_def split: sum.splits if_splits)
  then have "clusteringConf s = newErCCLConfig conf"
    by (rule spec_CheckValid_Inr)
  then have "cc_NormalVec (clusteringConf s) = \<lparr> X = 0, Y = - 1, Z = 0 \<rparr>"
    by (simp add: newErCCLConfig_def)
  with v show False by simp
qed

subsection \<open>The vision interface\<close>

text \<open>
  Claim C6. \<open>GetProperties\<close> returns, for every service and every argument, the
  capability set with object point clouds supported and detections and
  classifications unsupported, and never an error.
\<close>

theorem GetProperties_capabilities:
  "GetProperties s ex =
     Inr \<lparr> ClassificationSupported = False, DetectionSupported = False,
           ObjectPCDsSupported = True \<rparr>"
  by (simp add: GetProperties_def)

theorem GetProperties_capabilities_witness:
  "GetProperties (sample_svc None) Map.empty =
     Inr \<lparr> ClassificationSupported = False, DetectionSupported = False,
           ObjectPCDsSupported = True \<rparr> \<and>
   ObjectPCDsSupported (projr (GetProperties (sample_svc (Some cam_plain)) Map.empty))"
  using GetProperties_capabilities [of "sample_svc None" Map.empty]
    GetProperties_capabilities [of "sample_svc (Some cam_plain)" Map.empty]
  by simp

text \<open>
  Claim C7. \<open>Detections\<close>, \<open>DetectionsFromCamera\<close>, \<open>Classifications\<close>,
  \<open>ClassificationsFromCamera\<close> and \<open>DoCommand\<close> return \<open>errUnimplemented\<close> for every
  input, and so never a successful result, empty or not.
\<close>

theorem unimplemented_methods:
  "Detections s img ex = Inl errUnimplemented \<and>
   DetectionsFromCamera s cameraName ex = Inl errUnimplemented \<and>
   Classifications s img n ex = Inl errUnimplemented \<and>
   ClassificationsFromCamera s cameraName n ex = Inl errUnimplemented \<and>
   DoCommand s cmd = Inl errUnimplemented \<and>
   Detections s img ex \<noteq> Inr [] \<and>
   DetectionsFromCamera s cameraName ex \<noteq> Inr [] \<and>
   Classifications s img n ex \<noteq> Inr [] \<and>
   ClassificationsFromCamera s cameraName n ex \<noteq> Inr [] \<and>
   DoCommand s cmd \<noteq> Inr Map.empty"
  by (simp add: Detections_def DetectionsFromCamera_def Classifications_def
      ClassificationsFromCamera_def DoCommand_def)

theorem unimplemented_methods_witness:
  "Detections (sample_svc None) (Image (Inr sample_dm)) Map.empty = Inl errUnimplemented \<and>
   DetectionsFromCamera (sample_svc None) ''plain'' Map.empty = Inl errUnimplemented \<and>
   Classifications (sample_svc None) (Image (Inr sample_dm)) 3 Map.empty = Inl errUnimplemented \<and>
   ClassificationsFromCamera (sample_svc None) ''plain'' 3 Map.empty = Inl errUnimplemented \<and>
   DoCommand (sample_svc None) Map.empty = Inl errUnimplemented"
  using unimplemented_methods [of "sample_svc None" "Image (Inr sample_dm)" Map.empty
      "''plain''" 3 Map.empty]
  by simp

text \<open>
  Claim C9. With an empty camera name and no default camera, \<open>GetObjectPointClouds\<close>
  and \<open>CaptureAllFromCamera\<close> fail with "no camera specified" and change nothing. A
  non-empty name is looked up in the dependencies, and a name that does not resolve is
  an error in both operations. On the camera selected, which is the one found under a
  non-empty name and the default camera under the empty name,
  \<open>GetObjectPointClouds\<close> runs the pipeline, and \<open>CaptureAllFromCamera\<close> decodes the
  image from it when \<open>ReturnImage\<close> is set and takes the objects of the pipeline on it
  when \<open>ReturnObject\<close> is set. The default camera is used only under the empty name:
  with a non-empty name the result does not depend on the default camera.
\<close>

theorem camera_selection:
  "(defaultCamera (svc w) = None \<longrightarrow>
      GetObjectPointClouds lib [] ex w = (Inl ErrNoCameraSpecified, w) \<and>
      CaptureAllFromCamera lib [] opts ex w = (Inl ErrNoCameraSpecified, w)) \<and>
   (defaultCamera (svc w) = Some cam \<longrightarrow>
      GetObjectPointClouds lib [] ex w = buildObsDepth lib cam w) \<and>
   (n \<noteq> [] \<longrightarrow> deps (svc w) n = Some cam \<longrightarrow>
      GetObjectPointClouds lib n ex w = buildObsDepth lib cam w) \<and>
   (n \<noteq> [] \<longrightarrow> deps (svc w) n = None \<longrightarrow>
      GetObjectPointClouds lib n ex w = (Inl (ErrResourceNotFound n), w) \<and>
      CaptureAllFromCamera lib n opts ex w = (Inl (ErrResourceNotFound n), w)) \<and>
   (n \<noteq> [] \<longrightarrow>
      fst (GetObjectPointClouds lib n ex (w\<lparr> svc := (svc w)\<lparr> defaultCamera := d \<rparr> \<rparr>)) =
        fst (GetObjectPointClouds lib n ex w) \<and>
      fst (CaptureAllFromCamera lib n opts ex (w\<lparr> svc := (svc w)\<lparr> defaultCamera := d \<rparr> \<rparr>)) =
        fst (CaptureAllFromCamera lib n opts ex w)) \<and>
   ((n = [] \<and> defaultCamera (svc w) = Some cam) \<or> (n \<noteq> [] \<and> deps (svc w) n = Some cam) \<longrightarrow>
      (ReturnImage opts \<longrightarrow> DecodeImageFromCamera cam = Inl e \<longrightarrow>
         CaptureAllFromCamera lib n opts ex w = (Inl e, w)) \<and>
      ((ReturnImage opts \<longrightarrow> DecodeImageFromCamera cam = Inr img) \<longrightarrow>
         (\<not> ReturnObject opts \<longrightarrow>
            CaptureAllFromCamera lib n opts ex w =
              (Inr \<lparr> vc_Image = (if ReturnImage opts then Some img else None),
                     vc_Detections = Some [], vc_Classifications = Some [],
                     vc_Objects = None \<rparr>, w)) \<and>
         (ReturnObject opts \<longrightarrow> buildObsDepth lib cam w = (Inl e, w') \<longrightarrow>
            CaptureAllFromCamera lib n opts ex w = (Inl e, w')) \<and>
         (ReturnObject opts \<longrightarrow> buildObsDepth lib cam w = (Inr objects, w') \<longrightarrow>
            CaptureAllFromCamera lib n opts ex w =
              (Inr \<lparr> vc_Image = (if ReturnImage opts then Some img else None),
                     vc_Detections = Some [], vc_Classifications = Some [],
                     vc_Objects = Some objects \<rparr>, w'))))"
proof -
  let ?w' = "w\<lparr> svc := (svc w)\<lparr> defaultCamera := d \<rparr> \<rparr>"
  have fallback: "fst (obsDepthNoIntrinsics c v) = fst (obsDepthNoIntrinsics c v')"
    if "mem v = mem v'" for c v v'
    using that by (simp add: obsDepthNoIntrinsics_def Let_def split: sum.splits)
  have calibrated: "fst (obsDepthWithIntrinsics lib c v) = fst (obsDepthWithIntrinsics lib c v')"
    if "mem v = mem v'" "intrinsics (svc v) = intrinsics (svc v')"
      "clusteringConf (svc v) = clusteringConf (svc v')" for c v v'
    using that
    by (simp add: obsDepthWithIntrinsics_def Let_def split: option.splits sum.splits)
  have build: "fst (buildObsDepth lib c ?w') = fst (buildObsDepth lib c w)" for c
  proof (cases "cam_Properties c")
    case (Inl e)
    have "fst (obsDepthNoIntrinsics c (?w'\<lparr> logged := logged ?w' @ [WarnNoProperties e] \<rparr>)) =
        fst (obsDepthNoIntrinsics c (w\<lparr> logged := logged w @ [WarnNoProperties e] \<rparr>))"
      by (rule fallback) simp
    with Inl show ?thesis by (simp add: buildObsDepth_def)
  next
    case (Inr p)
    show ?thesis
    proof (cases "IntrinsicParams p")
      case None
      have "fst (obsDepthNoIntrinsics c (?w'\<lparr> logged := logged ?w' @ [WarnNoIntrinsics] \<rparr>)) =
          fst (obsDepthNoIntrinsics c (w\<lparr> logged := logged w @ [WarnNoIntrinsics] \<rparr>))"
        by (rule fallback) simp
      with Inr None show ?thesis by (simp add: buildObsDepth_def)
    next
      case (Some k)
      have "fst (obsDepthWithIntrinsics lib c (?w'\<lparr> svc := (svc ?w')\<lparr> intrinsics := Some k \<rparr> \<rparr>)) =
          fst (obsDepthWithIntrinsics lib c (w\<lparr> svc := (svc w)\<lparr> intrinsics := Some k \<rparr> \<rparr>))"
        by (rule calibrated) simp_all
      with Inr Some show ?thesis by (simp add: buildObsDepth_def)
    qed
  qed
  have get: "fst (GetObjectPointClouds lib n ex ?w') = fst (GetObjectPointClouds lib n ex w)"
    if "n \<noteq> []"
    using that build
    by (simp add: GetObjectPointClouds_def split: sum.splits)
  have capture: "fst (CaptureAllFromCamera lib n opts ex ?w') =
      fst (CaptureAllFromCamera lib n opts ex w)"
    if "n \<noteq> []"
  proof -
    have "fst (GetObjectPointClouds lib n ex ?w') = fst (GetObjectPointClouds lib n ex w)"
      using that by (rule get)
    then show ?thesis
      using that
      by (cases "GetObjectPointClouds lib n ex ?w'"; cases "GetObjectPointClouds lib n ex w")
        (auto simp: CaptureAllFromCamera_def Let_def split: sum.splits)
  qed
  have none: "defaultCamera (svc w) = None \<longrightarrow>
      GetObjectPointClouds lib [] ex w = (Inl ErrNoCameraSpecified, w) \<and>
      CaptureAllFromCamera lib [] opts ex w = (Inl ErrNoCameraSpecified, w)"
    by (simp add: GetObjectPointClouds_def CaptureAllFromCamera_def)
  have default: "defaultCamera (svc w) = Some cam \<longrightarrow>
      GetObjectPointClouds lib [] ex w = buildObsDepth lib cam w"
    by (simp add: GetObjectPointClouds_def)
  have found: "n \<noteq> [] \<longrightarrow> deps (svc w) n = Some cam \<longrightarrow>
      GetObjectPointClouds lib n ex w = buildObsDepth lib cam w"
    by (simp add: GetObjectPointClouds_def FromDependencies_def)
  have missing: "n \<noteq> [] \<longrightarrow> deps (svc w) n = None \<longrightarrow>
      GetObjectPointClouds lib n ex w = (Inl (ErrResourceNotFound n), w) \<and>
      CaptureAllFromCamera lib n opts ex w = (Inl (ErrResourceNotFound n), w)"
    by (simp add: GetObjectPointClouds_def CaptureAllFromCamera_def FromDependencies_def)
  have selected: "(ReturnImage opts \<longrightarrow> DecodeImageFromCamera cam = Inl e \<longrightarrow>
         CaptureAllFromCamera lib n opts ex w = (Inl e, w)) \<and>
      ((ReturnImage opts \<longrightarrow> DecodeImageFromCamera cam = Inr img) \<longrightarrow>
         (\<not> ReturnObject opts \<longrightarrow>
            CaptureAllFromCamera lib n opts ex w =
              (Inr \<lparr> vc_Image = (if ReturnImage opts then Some img else None),
                     vc_Detections = Some [], vc_Classifications = Some [],
                     vc_Objects = None \<rparr>, w)) \<and>
         (ReturnObject opts \<longrightarrow> buildObsDepth lib cam w = (Inl e, w') \<longrightarrow>
            CaptureAllFromCamera lib n opts ex w = (Inl e, w')) \<and>
         (ReturnObject opts \<longrightarrow> buildObsDepth lib cam w = (Inr objects, w') \<longrightarrow>
            CaptureAllFromCamera lib n opts ex w =
              (Inr \<lparr> vc_Image = (if ReturnImage opts then Some img else None),
                     vc_Detections = Some [], vc_Classifications = Some [],
                     vc_Objects = Some objects \<rparr>, w')))"
    if sel: "(n = [] \<and> defaultCamera (svc w) = Some cam) \<or>
      (n \<noteq> [] \<and> deps (svc w) n = Some cam)"
  proof -
    from sel have cam: "(if n \<noteq> [] then FromDependencies (deps (svc w)) n
            else (case defaultCamera (svc w) of
                    Some c \<Rightarrow> Inr c
                  | None \<Rightarrow> Inl ErrNoCameraSpecified)) = Inr cam"
      by (auto simp: FromDependencies_def)
    from sel have pipeline: "GetObjectPointClouds lib n ex w = buildObsDepth lib cam w"
      by (auto simp: GetObjectPointClouds_def FromDependencies_def)
    show ?thesis
      unfolding CaptureAllFromCamera_def cam pipeline
      by (cases "ReturnImage opts"; cases "ReturnObject opts") (simp_all add: Let_def)
  qed
  from none default found missing get capture selected show ?thesis by blast
qed

text \<open>
  A service without a default camera: the empty name fails, \<open>''plain''\<close> resolves and
  yields the capture of that camera, and \<open>''front''\<close> does not resolve. A service whose
  default camera is \<open>cam_plain\<close>: the empty name yields the same obstacles and capture.
\<close>

theorem camera_selection_witness:
  "defaultCamera (svc (sample_world None [50, 10, 40, 20, 30])) = None \<and>
   GetObjectPointClouds sample_Library [] Map.empty (sample_world None [50, 10, 40, 20, 30]) =
     (Inl ErrNoCameraSpecified, sample_world None [50, 10, 40, 20, 30]) \<and>
   CaptureAllFromCamera sample_Library []
       \<lparr> ReturnImage = True, ReturnDetections = False, ReturnClassifications = False,
         ReturnObject = True \<rparr>
       Map.empty (sample_world None [50, 10, 40, 20, 30]) =
     (Inl ErrNoCameraSpecified, sample_world None [50, 10, 40, 20, 30]) \<and>
   deps (svc (sample_world None [50, 10, 40, 20, 30])) ''plain'' = Some cam_plain \<and>
   fst (GetObjectPointClouds sample_Library ''plain'' Map.empty
          (sample_world None [50, 10, 40, 20, 30])) = Inr [pointObstacle 30] \<and>
   fst (CaptureAllFromCamera sample_Library ''plain''
          \<lparr> ReturnImage = True, ReturnDetections = False, ReturnClassifications = False,
            ReturnObject = True \<rparr>
          Map.empty (sample_world None [50, 10, 40, 20, 30])) =
     Inr \<lparr> vc_Image = Some (Image (Inr sample_dm)), vc_Detections = Some [],
           vc_Classifications = Some [], vc_Objects = Some [pointObstacle 30] \<rparr> \<and>
   deps (svc (sample_world None [50, 10, 40, 20, 30])) ''front'' = None \<and>
   GetObjectPointClouds sample_Library ''front'' Map.empty
       (sample_world None [50, 10, 40, 20, 30]) =
     (Inl (ErrResourceNotFound ''front''), sample_world None [50, 10, 40, 20, 30]) \<and>
   defaultCamera (svc (sample_world (Some cam_plain) [50, 10, 40, 20, 30])) = Some cam_plain \<and>
   fst (GetObjectPointClouds sample_Library [] Map.empty
          (sample_world (Some cam_plain) [50, 10, 40, 20, 30])) = Inr [pointObstacle 30] \<and>
   fst (CaptureAllFromCamera sample_Library []
          \<lparr> ReturnImage = True, ReturnDetections = False, ReturnClassifications = False,
            ReturnObject = True \<rparr>
          Map.empty (sample_world (Some cam_plain) [50, 10, 40, 20, 30])) =
     Inr \<lparr> vc_Image = Some (Image (Inr sample_dm)), vc_Detections = Some [],
           vc_Classifications = Some [], vc_Objects = Some [pointObstacle 30] \<rparr>"
proof -
  let ?w = "sample_world None [50, 10, 40, 20, 30]"
  let ?v = "sample_world (Some cam_plain) [50, 10, 40, 20, 30]"
  let ?opts = "\<lparr> ReturnImage = True, ReturnDetections = False, ReturnClassifications = False,
         ReturnObject = True \<rparr>"
  let ?sorted = "[0 \<mapsto> [10, 20, 30, 40, 50 :: Depth]]"
  have d: "defaultCamera (svc ?w) = None" "defaultCamera (svc ?v) = Some cam_plain"
    by (simp_all add: sample_world_def sample_svc_def)
  have l: "deps (svc ?w) ''plain'' = Some cam_plain" "deps (svc ?w) ''front'' = None"
    by (simp_all add: sample_world_def sample_svc_def sample_deps_def)
  have ne: "''plain'' \<noteq> []" "''front'' \<noteq> []"
    by simp_all
  have o: "ReturnImage ?opts" "ReturnObject ?opts"
    by simp_all
  have img: "DecodeImageFromCamera cam_plain = Inr (Image (Inr sample_dm))"
    by (simp add: cam_plain_def)
  have bw: "buildObsDepth sample_Library cam_plain ?w =
      (Inr [pointObstacle 30], ?w\<lparr> mem := ?sorted, logged := [WarnNoIntrinsics] \<rparr>)"
    by (simp add: pipeline_defs sample_defs pointObstacle_def)
  have bv: "buildObsDepth sample_Library cam_plain ?v =
      (Inr [pointObstacle 30], ?v\<lparr> mem := ?sorted, logged := [WarnNoIntrinsics] \<rparr>)"
    by (simp add: pipeline_defs sample_defs pointObstacle_def)
  note sel = camera_selection [where lib = sample_Library and ex = Map.empty and opts = ?opts]
  have g1: "GetObjectPointClouds sample_Library [] Map.empty ?w = (Inl ErrNoCameraSpecified, ?w)"
    "CaptureAllFromCamera sample_Library [] ?opts Map.empty ?w = (Inl ErrNoCameraSpecified, ?w)"
    using sel [where w = ?w] d(1) by blast+
  have g2: "GetObjectPointClouds sample_Library ''plain'' Map.empty ?w =
      buildObsDepth sample_Library cam_plain ?w"
    using sel [where w = ?w and n = "''plain''" and cam = cam_plain] l(1) ne(1) by blast
  have g3: "GetObjectPointClouds sample_Library ''front'' Map.empty ?w =
      (Inl (ErrResourceNotFound ''front''), ?w)"
    using sel [where w = ?w and n = "''front''"] l(2) ne(2) by blast
  have g4: "GetObjectPointClouds sample_Library [] Map.empty ?v =
      buildObsDepth sample_Library cam_plain ?v"
    using sel [where w = ?v and cam = cam_plain] d(2) by blast
  have c2: "CaptureAllFromCamera sample_Library ''plain'' ?opts Map.empty ?w =
      (Inr \<lparr> vc_Image = (if ReturnImage ?opts then Some (Image (Inr sample_dm)) else None),
             vc_Detections = Some [], vc_Classifications = Some [],
             vc_Objects = Some [pointObstacle 30] \<rparr>,
       ?w\<lparr> mem := ?sorted, logged := [WarnNoIntrinsics] \<rparr>)"
    using sel [where w = ?w and n = "''plain''" and cam = cam_plain
        and img = "Image (Inr sample_dm)" and objects = "[pointObstacle 30]"
        and w' = "?w\<lparr> mem := ?sorted, logged := [WarnNoIntrinsics] \<rparr>"]
      l(1) ne(1) o img bw
    by blast
  have c4: "CaptureAllFromCamera sample_Library [] ?opts Map.empty ?v =
      (Inr \<lparr> vc_Image = (if ReturnImage ?opts then Some (Image (Inr sample_dm)) else None),
             vc_Detections = Some [], vc_Classifications = Some [],
             vc_Objects = Some [pointObstacle 30] \<rparr>,
       ?v\<lparr> mem := ?sorted, logged := [WarnNoIntrinsics] \<rparr>)"
    using sel [where w = ?v and n = "[]" and cam = cam_plain
        and img = "Image (Inr sample_dm)" and objects = "[pointObstacle 30]"
        and w' = "?v\<lparr> mem := ?sorted, logged := [WarnNoIntrinsics] \<rparr>"]
      d(2) o img bv
    by blast
  from d l g1 g2 g3 g4 bw bv c2 c4 show ?thesis by simp
qed

text \<open>
  Claim C10. In every capture that \<open>CaptureAllFromCamera\<close> returns without an error,
  the detections and the classifications are the empty, non-nil collections, whatever
  the options were; the image is set exactly when \<open>ReturnImage\<close> was, and the objects
  are set exactly when \<open>ReturnObject\<close> was, to what \<open>GetObjectPointClouds\<close> returns.
\<close>

theorem capture_fields:
  assumes "fst (CaptureAllFromCamera lib n opts ex w) = Inr cap"
  shows "vc_Detections cap = Some [] \<and> vc_Classifications cap = Some [] \<and>
         (vc_Image cap \<noteq> None \<longleftrightarrow> ReturnImage opts) \<and>
         (vc_Objects cap \<noteq> None \<longleftrightarrow> ReturnObject opts) \<and>
         (\<forall>objects. vc_Objects cap = Some objects \<longleftrightarrow>
            ReturnObject opts \<and> fst (GetObjectPointClouds lib n ex w) = Inr objects)"
  using assms
  by (cases "GetObjectPointClouds lib n ex w")
    (auto simp: CaptureAllFromCamera_def Let_def split: sum.splits if_splits option.splits)

theorem capture_fields_witness:
  "fst (CaptureAllFromCamera sample_Library ''plain''
          \<lparr> ReturnImage = True, ReturnDetections = True, ReturnClassifications = True,
            ReturnObject = True \<rparr>
          Map.empty (sample_world None [50, 10, 40, 20, 30])) =
     Inr \<lparr> vc_Image = Some (Image (Inr sample_dm)), vc_Detections = Some [],
           vc_Classifications = Some [], vc_Objects = Some [pointObstacle 30] \<rparr> \<and>
   fst (CaptureAllFromCamera sample_Library ''plain''
          \<lparr> ReturnImage = False, ReturnDetections = True, ReturnClassifications = True,
            ReturnObject = False \<rparr>
          Map.empty (sample_world None [50, 10, 40, 20, 30])) =
     Inr \<lparr> vc_Image = None, vc_Detections = Some [],
           vc_Classifications = Some [], vc_Objects = None \<rparr>"
proof -
  let ?w = "sample_world None [50, 10, 40, 20, 30]"
  let ?all = "\<lparr> ReturnImage = True, ReturnDetections = True, ReturnClassifications = True,
            ReturnObject = True \<rparr>"
  let ?none = "\<lparr> ReturnImage = False, ReturnDetections = True, ReturnClassifications = True,
            ReturnObject = False \<rparr>"
  have g: "GetObjectPointClouds sample_Library ''plain'' Map.empty ?w =
      (Inr [pointObstacle 30], ?w\<lparr> mem := [0 \<mapsto> [10, 20, 30, 40, 50]],
         logged := [WarnNoIntrinsics] \<rparr>)"
    by (simp add: pipeline_defs sample_defs pointObstacle_def)
  have c: "FromDependencies (deps (svc ?w)) ''plain'' = Inr cam_plain"
    "DecodeImageFromCamera cam_plain = Inr (Image (Inr sample_dm))"
    by (simp_all add: FromDependencies_def sample_world_def sample_svc_def sample_deps_def
        cam_plain_def)
  have a: "fst (CaptureAllFromCamera sample_Library ''plain'' ?all Map.empty ?w) =
     Inr \<lparr> vc_Image = Some (Image (Inr sample_dm)), vc_Detections = Some [],
           vc_Classifications = Some [], vc_Objects = Some [pointObstacle 30] \<rparr>"
    by (simp add: CaptureAllFromCamera_def g c)
  have b: "fst (CaptureAllFromCamera sample_Library ''plain'' ?none Map.empty ?w) =
     Inr \<lparr> vc_Image = None, vc_Detections = Some [],
           vc_Classifications = Some [], vc_Objects = None \<rparr>"
    by (simp add: CaptureAllFromCamera_def c)
  from a b capture_fields [OF a] capture_fields [OF b] show ?thesis by simp
qed

end
